theory Spec2Isabelle
  imports Complex_Main
begin

section \<open>KitchenScene: point-and-click movement of Hello Kitty\<close>

text \<open>
  A shallow embedding of the movement core of \<^verbatim>\<open>src/scenes/KitchenScene.ts\<close>:
  \<^verbatim>\<open>update\<close>, \<^verbatim>\<open>moveHelloKittyToTarget\<close>, \<^verbatim>\<open>moveToPosition\<close>, \<^verbatim>\<open>moveToStation\<close>,
  \<^verbatim>\<open>onReachedStation\<close>, \<^verbatim>\<open>layout\<close>, \<^verbatim>\<open>updateStationPosition\<close> and \<^verbatim>\<open>handleResize\<close>.

  Numbers. A JavaScript \<^verbatim>\<open>number\<close> is read as a mathematical real: rounding of IEEE
  doubles is not modelled. The one place where the source can leave the finite numbers is
  the division in \<^verbatim>\<open>handleResize\<close>; there a division by zero is a branch of the model
  (\<open>js_div\<close> returns \<open>None\<close>), and a scene left with a \<^verbatim>\<open>NaN\<close> coordinate is \<open>None\<close>.

  Presentation objects (sprites' textures, tweens, texts, the background, the customer)
  are left out; what the scene does to them is recorded only where the movement state is
  concerned: the destination markers requested and the stations handed to
  \<^verbatim>\<open>onReachedStation\<close> are logged in the state, in order.
\<close>

subsection \<open>Library functions used by the scene\<close>

text \<open>
  \<^verbatim>\<open>Phaser.Math.Clamp(value, min, max)\<close> is \<^verbatim>\<open>Math.max(min, Math.min(max, value))\<close>.
\<close>

definition Clamp :: "real \<Rightarrow> real \<Rightarrow> real \<Rightarrow> real" where
  "Clamp v lo hi = max lo (min hi v)"

text \<open>
  \<^verbatim>\<open>Phaser.Math.Distance.Between(x1, y1, x2, y2)\<close> is
  \<^verbatim>\<open>Math.sqrt(dx * dx + dy * dy)\<close> with \<^verbatim>\<open>dx = x1 - x2\<close>, \<^verbatim>\<open>dy = y1 - y2\<close>.
\<close>

definition Distance_Between :: "real \<Rightarrow> real \<Rightarrow> real \<Rightarrow> real \<Rightarrow> real" where
  "Distance_Between x1 y1 x2 y2 =
     (let dx = x1 - x2; dy = y1 - y2 in sqrt (dx * dx + dy * dy))"

text \<open>\<^verbatim>\<open>Math.atan2(y, x)\<close>: the angle of the point \<open>(x, y)\<close>, in \<open>(-\<pi>, \<pi>]\<close>.\<close>

definition atan2 :: "real \<Rightarrow> real \<Rightarrow> real" where
  "atan2 y x =
     (if 0 < x then arctan (y / x)
      else if x < 0 then (if 0 \<le> y then arctan (y / x) + pi else arctan (y / x) - pi)
      else if 0 < y then pi / 2
      else if y < 0 then - (pi / 2)
      else 0)"

text \<open>
  \<^verbatim>\<open>Phaser.Math.Angle.Between(x1, y1, x2, y2)\<close> is \<^verbatim>\<open>Math.atan2(y2 - y1, x2 - x1)\<close>.
\<close>

definition Angle_Between :: "real \<Rightarrow> real \<Rightarrow> real \<Rightarrow> real \<Rightarrow> real" where
  "Angle_Between x1 y1 x2 y2 = atan2 (y2 - y1) (x2 - x1)"

text \<open>
  The JavaScript \<^verbatim>\<open>a || b\<close> on numbers: \<^verbatim>\<open>b\<close> when \<^verbatim>\<open>a\<close> is falsy, that is zero.
\<close>

definition js_or :: "real \<Rightarrow> real \<Rightarrow> real" where
  "js_or a b = (if a = 0 then b else a)"

text \<open>
  The JavaScript \<^verbatim>\<open>a / b\<close>. With \<^verbatim>\<open>b = 0\<close> the result is \<^verbatim>\<open>NaN\<close> or an infinity, not a
  finite number: \<open>None\<close>.
\<close>

definition js_div :: "real \<Rightarrow> real \<Rightarrow> real option" where
  "js_div a b = (if b = 0 then None else Some (a / b))"

subsection \<open>Data model\<close>

type_synonym point = "real \<times> real"

text \<open>
  \<^verbatim>\<open>interface Station\<close>: the sprite and the interaction zone are always placed at
  \<^verbatim>\<open>position\<close>, so the position alone stands for the three. A station object is known
  by its name (\<^verbatim>\<open>createStations\<close> gives the four stations four names).
\<close>

record station =
  name :: string
  position :: point

text \<open>
  The fields of \<^verbatim>\<open>class KitchenScene\<close> the movement reads or writes.
  \<open>helloKitty\<close> is the sprite's \<open>(x, y)\<close>, \<open>flipX\<close> its facing, \<open>shadow\<close> the ellipse
  stored under the sprite's data key \<^verbatim>\<open>'shadow'\<close> (\<open>None\<close> when no such datum is set).
  \<open>camWidth\<close> and \<open>camHeight\<close> are \<^verbatim>\<open>this.cameras.main.width\<close> and \<^verbatim>\<open>.height\<close>.
  \<open>currentStation\<close> holds the name of the referenced station object.
  \<open>markers\<close> logs the calls of \<^verbatim>\<open>showDestinationMarker\<close>, \<open>reached\<close> the calls of
  \<^verbatim>\<open>onReachedStation\<close>, oldest first.
\<close>

record scene =
  helloKitty :: point
  flipX :: bool
  shadow :: "point option"
  stations :: "station list"
  lastWidth :: real
  lastHeight :: real
  isMoving :: bool
  targetPosition :: "point option"
  currentStation :: "string option"
  camWidth :: real
  camHeight :: real
  markers :: "point list"
  reached :: "string list"

definition moveSpeed :: real where
  "moveSpeed = 200"

subsection \<open>Movement orders\<close>

definition showDestinationMarker :: "real \<Rightarrow> real \<Rightarrow> scene \<Rightarrow> scene" where
  "showDestinationMarker x y s = s\<lparr>markers := markers s @ [(x, y)]\<rparr>"

definition moveToPosition :: "real \<Rightarrow> real \<Rightarrow> scene \<Rightarrow> scene" where
  "moveToPosition x y s =
     (let width = camWidth s;
          height = camHeight s;
          x' = Clamp x 50 (width - 50);
          y' = Clamp y 100 (height - 50)
      in showDestinationMarker x' y' (s\<lparr>targetPosition := Some (x', y'), isMoving := True\<rparr>))"

definition moveToStation :: "station \<Rightarrow> scene \<Rightarrow> scene" where
  "moveToStation st s =
     (let targetX = fst (position st);
          targetY = snd (position st) + 80
      in (moveToPosition targetX targetY s)\<lparr>currentStation := Some (name st)\<rparr>)"

subsection \<open>The frame update\<close>

text \<open>
  \<^verbatim>\<open>onReachedStation\<close>: the tween and the prompt are presentation; the call is logged
  and the station reference reset.
\<close>

definition onReachedStation :: "string \<Rightarrow> scene \<Rightarrow> scene" where
  "onReachedStation st s = s\<lparr>reached := reached s @ [st], currentStation := None\<rparr>"

definition updateShadow :: "scene \<Rightarrow> scene" where
  "updateShadow s =
     (case shadow s of
        None \<Rightarrow> s
      | Some _ \<Rightarrow> s\<lparr>shadow := Some (fst (helloKitty s), snd (helloKitty s) + 40)\<rparr>)"

definition moveHelloKittyToTarget :: "real \<Rightarrow> scene \<Rightarrow> scene" where
  "moveHelloKittyToTarget delta s =
     (case targetPosition s of
        None \<Rightarrow> s
      | Some (tx, ty) \<Rightarrow>
          (let distance = Distance_Between (fst (helloKitty s)) (snd (helloKitty s)) tx ty
           in if distance < 5 then
                (let s1 = updateShadow (s\<lparr>helloKitty := (tx, ty), isMoving := False\<rparr>)
                 in case currentStation s1 of
                      Some st \<Rightarrow> onReachedStation st s1
                    | None \<Rightarrow> s1)
              else
                (let angle = Angle_Between (fst (helloKitty s)) (snd (helloKitty s)) tx ty;
                     moveDistance = (moveSpeed * delta) / 1000;
                     kx = fst (helloKitty s) + cos angle * moveDistance;
                     ky = snd (helloKitty s) + sin angle * moveDistance;
                     s1 = updateShadow (s\<lparr>helloKitty := (kx, ky)\<rparr>)
                 in if tx < kx then s1\<lparr>flipX := True\<rparr> else s1\<lparr>flipX := False\<rparr>)))"

definition update :: "real \<Rightarrow> real \<Rightarrow> scene \<Rightarrow> scene" where
  "update time delta s =
     (if isMoving s \<and> targetPosition s \<noteq> None then moveHelloKittyToTarget delta s else s)"

text \<open>A run of frames: one \<open>update\<close> per element, the element being the frame's delta.\<close>

fun updates :: "real list \<Rightarrow> scene \<Rightarrow> scene" where
  "updates [] s = s"
| "updates (delta # ds) s = updates ds (update 0 delta s)"

subsection \<open>Layout and resize\<close>

text \<open>
  \<^verbatim>\<open>this.stations.find((s) => s.name === n)\<close> followed by \<^verbatim>\<open>updateStationPosition\<close>:
  the first station of that name is moved; with no such station nothing happens.
\<close>

fun updateStationPosition :: "string \<Rightarrow> real \<Rightarrow> real \<Rightarrow> station list \<Rightarrow> station list" where
  "updateStationPosition n x y [] = []"
| "updateStationPosition n x y (st # sts) =
     (if name st = n then st\<lparr>position := (x, y)\<rparr> # sts
      else st # updateStationPosition n x y sts)"

text \<open>The four station names; the accented letter of the first is its two UTF-8 bytes.\<close>

definition Armario :: string where
  "Armario = ''Arm'' @ [char_of (0xC3 :: nat), char_of (0xA1 :: nat)] @ ''rio''"

definition Bancada :: string where
  "Bancada = ''Bancada''"

definition Forno :: string where
  "Forno = ''Forno''"

definition Mesa :: string where
  "Mesa = ''Mesa''"

definition layout :: "real \<Rightarrow> real \<Rightarrow> scene \<Rightarrow> scene" where
  "layout width height s =
     (let topY = height * 0.18;
          centerY = height * 0.5;
          bottomY = height * 0.7;
          sts = updateStationPosition Mesa (width * 0.78) bottomY
                 (updateStationPosition Forno (width * 0.75) topY
                   (updateStationPosition Bancada (width * 0.5) topY
                     (updateStationPosition Armario (width * 0.25) topY (stations s))));
          s1 = s\<lparr>stations := sts\<rparr>
      in if \<not> isMoving s1 \<and> targetPosition s1 = None
         then updateShadow (s1\<lparr>helloKitty := (width / 2, centerY)\<rparr>)
         else s1)"

text \<open>
  \<^verbatim>\<open>handleResize\<close>, lines 185 to 208: the actor and the stored target are rescaled.
  \<open>None\<close> when a division by zero is performed: the sprite's coordinates, the shadow's
  and those of the stored target, if there is one, are then \<^verbatim>\<open>NaN\<close>, and no other field
  has changed.
\<close>

definition rescale :: "real \<Rightarrow> real \<Rightarrow> scene \<Rightarrow> scene option" where
  "rescale width height s =
     (let oldWidth = js_or (lastWidth s) width;
          oldHeight = js_or (lastHeight s) height
      in case (js_div (fst (helloKitty s)) oldWidth, js_div (snd (helloKitty s)) oldHeight) of
           (Some relX, Some relY) \<Rightarrow>
             (let s1 = updateShadow (s\<lparr>helloKitty := (relX * width, relY * height)\<rparr>)
              in case targetPosition s1 of
                   None \<Rightarrow> Some s1
                 | Some (tx, ty) \<Rightarrow>
                     (case (js_div tx oldWidth, js_div ty oldHeight) of
                        (Some qx, Some qy) \<Rightarrow>
                          Some (s1\<lparr>targetPosition := Some (qx * width, qy * height)\<rparr>)
                      | _ \<Rightarrow> None))
         | _ \<Rightarrow> None)"

text \<open>
  \<^verbatim>\<open>handleResize\<close> whole: the rescale, then the layout, then the size cache.

  After a division by zero the handler goes on like that too. The layout moves the
  stations and, in an idle scene with no stored target, puts the sprite on the centre
  and the shadow below it (lines 137 to 142): both \<^verbatim>\<open>NaN\<close> positions are overwritten, so
  the scene the handler leaves is the layout of the scene it started from, with the new
  size cached. In a scene that is moving or has a stored target the layout leaves the
  sprite alone and the \<^verbatim>\<open>NaN\<close> coordinates stay: \<open>None\<close>.
\<close>

definition handleResize :: "real \<Rightarrow> real \<Rightarrow> scene \<Rightarrow> scene option" where
  "handleResize width height s =
     (case rescale width height s of
        Some s1 \<Rightarrow> Some ((layout width height s1)\<lparr>lastWidth := width, lastHeight := height\<rparr>)
      | None \<Rightarrow>
          (if \<not> isMoving s \<and> targetPosition s = None
           then Some ((layout width height s)\<lparr>lastWidth := width, lastHeight := height\<rparr>)
           else None))"

subsection \<open>Scene creation\<close>

text \<open>
  \<^verbatim>\<open>create\<close>: \<^verbatim>\<open>createStations\<close> and \<^verbatim>\<open>createHelloKitty\<close> place stations, sprite and
  shadow from the camera size \<open>camW\<close>, \<open>camH\<close>; then \<^verbatim>\<open>layout\<close> runs on the scale
  manager's size \<open>scaleW\<close>, \<open>scaleH\<close>, which is cached.
\<close>

definition create :: "real \<Rightarrow> real \<Rightarrow> real \<Rightarrow> real \<Rightarrow> scene" where
  "create camW camH scaleW scaleH =
     (let s0 = \<lparr>helloKitty = (camW / 2, camH * 0.5),
                flipX = False,
                shadow = Some (camW / 2, camH * 0.5 + 40),
                stations =
                  [\<lparr>name = Armario, position = (camW * 0.25, camH * 0.2)\<rparr>,
                   \<lparr>name = Bancada, position = (camW * 0.5, camH * 0.2)\<rparr>,
                   \<lparr>name = Forno, position = (camW * 0.75, camH * 0.2)\<rparr>,
                   \<lparr>name = Mesa, position = (camW * 0.78, camH * 0.7)\<rparr>],
                lastWidth = 0,
                lastHeight = 0,
                isMoving = False,
                targetPosition = None,
                currentStation = None,
                camWidth = camW,
                camHeight = camH,
                markers = [],
                reached = []\<rparr>
      in (layout scaleW scaleH s0)\<lparr>lastWidth := scaleW, lastHeight := scaleH\<rparr>)"

text \<open>The distance the frame update compares with 5; 0 when no target is stored.\<close>

definition distanceToTarget :: "scene \<Rightarrow> real" where
  "distanceToTarget s =
     (case targetPosition s of
        None \<Rightarrow> 0
      | Some (tx, ty) \<Rightarrow> Distance_Between (fst (helloKitty s)) (snd (helloKitty s)) tx ty)"

subsection \<open>Observations and reachable scenes\<close>

text \<open>The shadow sits 40 pixels below the sprite.\<close>

definition shadowAttached :: "scene \<Rightarrow> bool" where
  "shadowAttached s = (shadow s = Some (fst (helloKitty s), snd (helloKitty s) + 40))"

text \<open>
  A scene that has never been given a movement order has its sprite where \<^verbatim>\<open>layout\<close>
  put it: at the centre of the cached size.
\<close>

definition idleCentred :: "scene \<Rightarrow> bool" where
  "idleCentred s =
     (isMoving s \<or> targetPosition s \<noteq> None
      \<or> helloKitty s = (lastWidth s / 2, lastHeight s * 0.5))"

text \<open>
  The scenes the event handlers can produce: \<^verbatim>\<open>create\<close>, then clicks on the background
  or on one of the scene's stations, frames, and resize events. The camera size is set
  by the engine, so it may change at any time.
\<close>

inductive reachable :: "scene \<Rightarrow> bool" where
  reachable_create: "reachable (create camW camH scaleW scaleH)"
| reachable_camera: "reachable s \<Longrightarrow> reachable (s\<lparr>camWidth := w, camHeight := h\<rparr>)"
| reachable_click: "reachable s \<Longrightarrow> reachable (moveToPosition x y s)"
| reachable_station:
    "reachable s \<Longrightarrow> st \<in> set (stations s) \<Longrightarrow> reachable (moveToStation st s)"
| reachable_update: "reachable s \<Longrightarrow> reachable (update time delta s)"
| reachable_resize:
    "reachable s \<Longrightarrow> handleResize width height s = Some s' \<Longrightarrow> reachable s'"

text \<open>What every reachable scene satisfies.\<close>

definition sceneInv :: "scene \<Rightarrow> bool" where
  "sceneInv s =
     (idleCentred s \<and> shadow s \<noteq> None \<and> (isMoving s \<longrightarrow> targetPosition s \<noteq> None))"

section \<open>Properties\<close>

subsection \<open>Evaluating the scene on concrete input\<close>

lemma sqrt_less_5: "sqrt a < 5 \<longleftrightarrow> a < 25"
proof -
  have "sqrt a < sqrt 25 \<longleftrightarrow> a < 25" by (rule real_sqrt_less_iff)
  moreover have "sqrt 25 = 5" using real_sqrt_abs [of 5] by simp
  ultimately show ?thesis by simp
qed

lemma Distance_lt_5:
  "Distance_Between x1 y1 x2 y2 < 5 \<longleftrightarrow> (x1 - x2) * (x1 - x2) + (y1 - y2) * (y1 - y2) < 25"
  by (simp add: Distance_Between_def Let_def sqrt_less_5)

lemma sqrt_100: "sqrt 100 = 10"
  using real_sqrt_abs [of 10] by simp

lemma create_cam: "camWidth (create cw ch sw sh) = cw" "camHeight (create cw ch sw sh) = ch"
  by (simp_all add: create_def layout_def updateShadow_def Let_def)

text \<open>The scene created on an 800 by 600 canvas.\<close>

lemma create_800_600:
  "create 800 600 800 600 =
     \<lparr>helloKitty = (400, 300), flipX = False, shadow = Some (400, 340),
      stations =
        [\<lparr>name = Armario, position = (200, 108)\<rparr>, \<lparr>name = Bancada, position = (400, 108)\<rparr>,
         \<lparr>name = Forno, position = (600, 108)\<rparr>, \<lparr>name = Mesa, position = (624, 420)\<rparr>],
      lastWidth = 800, lastHeight = 600, isMoving = False, targetPosition = None,
      currentStation = None, camWidth = 800, camHeight = 600, markers = [], reached = []\<rparr>"
  by (simp add: create_def layout_def updateShadow_def Let_def
        Armario_def Bancada_def Forno_def Mesa_def)

lemmas order_defs = moveToStation_def moveToPosition_def showDestinationMarker_def Clamp_def

lemmas tick_defs = update_def moveHelloKittyToTarget_def Distance_lt_5 Angle_Between_def
  atan2_def moveSpeed_def updateShadow_def onReachedStation_def

lemmas resize_defs = handleResize_def rescale_def js_or_def js_div_def layout_def
  updateShadow_def Armario_def Bancada_def Forno_def Mesa_def

subsection \<open>The shadow update\<close>

lemma updateShadow_fields [simp]:
  "helloKitty (updateShadow s) = helloKitty s"
  "flipX (updateShadow s) = flipX s"
  "isMoving (updateShadow s) = isMoving s"
  "targetPosition (updateShadow s) = targetPosition s"
  "currentStation (updateShadow s) = currentStation s"
  "reached (updateShadow s) = reached s"
  "lastWidth (updateShadow s) = lastWidth s"
  "lastHeight (updateShadow s) = lastHeight s"
  by (simp_all add: updateShadow_def split: option.splits)

lemma updateShadow_shadow:
  "shadow (updateShadow s) =
     (case shadow s of
        None \<Rightarrow> None
      | Some _ \<Rightarrow> Some (fst (helloKitty s), snd (helloKitty s) + 40))"
  by (simp add: updateShadow_def split: option.splits)

subsection \<open>Frames while idle\<close>

lemma update_idle: "\<not> isMoving s \<Longrightarrow> update time delta s = s"
  by (simp add: update_def)

lemma updates_idle: "\<not> isMoving s \<Longrightarrow> updates ds s = s"
  by (induction ds) (simp_all add: update_idle)

text \<open>
  C4. Once the moving flag is false, a further frame, and so any run of further frames,
  whatever the deltas, leaves the whole scene as it is: position, facing and the log of
  station arrivals included. Only a new movement order sets the flag again.
\<close>

theorem updates_idle_noop:
  "\<not> isMoving s \<Longrightarrow> update time delta s = s \<and> updates ds s = s"
  by (simp add: update_idle updates_idle)

theorem updates_idle_noop_witness:
  "isMoving (create 800 600 800 600) = False
   \<and> update 0 16 (create 800 600 800 600) = create 800 600 800 600
   \<and> updates [16, 1000, 0, - 3] (create 800 600 800 600) = create 800 600 800 600"
proof -
  have h: "\<not> isMoving (create 800 600 800 600)"
    by (simp add: create_800_600)
  show ?thesis
    using h updates_idle_noop [OF h, of 0 16 "[16, 1000, 0, - 3]"] by (simp del: updates.simps)
qed

subsection \<open>Movement orders\<close>

text \<open>
  C5, amended. A movement order to any raw point stores a target and sets the moving
  flag, whatever the point and the viewport. Each axis is clamped on its own. On a
  viewport at least 100 wide the stored x lies in [50, width - 50]: a raw x below 50
  is stored as 50, one above width - 50 as width - 50, one in between as it is. On a
  narrower viewport that interval is empty and the stored x is 50. The same holds for
  y with [100, height - 50] on a viewport at least 150 high, and 100 on a lower one.
  The order to (-500, -500) on an 800 by 600 viewport stores (50, 100).
\<close>

theorem moveToPosition_clamps:
  "\<exists>tx ty. targetPosition (moveToPosition x y s) = Some (tx, ty)
     \<and> isMoving (moveToPosition x y s)
     \<and> (100 \<le> camWidth s \<longrightarrow>
           50 \<le> tx \<and> tx \<le> camWidth s - 50
           \<and> (x < 50 \<longrightarrow> tx = 50)
           \<and> (camWidth s - 50 < x \<longrightarrow> tx = camWidth s - 50)
           \<and> (50 \<le> x \<and> x \<le> camWidth s - 50 \<longrightarrow> tx = x))
     \<and> (camWidth s < 100 \<longrightarrow> tx = 50)
     \<and> (150 \<le> camHeight s \<longrightarrow>
           100 \<le> ty \<and> ty \<le> camHeight s - 50
           \<and> (y < 100 \<longrightarrow> ty = 100)
           \<and> (camHeight s - 50 < y \<longrightarrow> ty = camHeight s - 50)
           \<and> (100 \<le> y \<and> y \<le> camHeight s - 50 \<longrightarrow> ty = y))
     \<and> (camHeight s < 150 \<longrightarrow> ty = 100)
     \<and> (camWidth s = 800 \<and> camHeight s = 600 \<longrightarrow>
          targetPosition (moveToPosition (- 500) (- 500) s) = Some (50, 100))"
  by (simp add: moveToPosition_def showDestinationMarker_def Clamp_def Let_def)

theorem moveToPosition_clamps_witness:
  "camWidth (create 800 600 800 600) = 800 \<and> camHeight (create 800 600 800 600) = 600
   \<and> targetPosition (moveToPosition 5000 5000 (create 800 600 800 600)) = Some (750, 550)
   \<and> targetPosition (moveToPosition (- 500) (- 500) (create 800 600 800 600)) = Some (50, 100)"
  using moveToPosition_clamps [of 5000 5000 "create 800 600 800 600"]
  by (clarsimp simp: create_cam)

text \<open>
  C5 as stated fails: on a viewport of 80 by 120 the order to (40, 60) stores
  (50, 100), right of width - 50 = 30 and below height - 50 = 70, so not in the
  rectangle the claim names.
\<close>

theorem small_viewport_target:
  "camWidth (create 80 120 80 120) = 80 \<and> camHeight (create 80 120 80 120) = 120
   \<and> targetPosition (moveToPosition 40 60 (create 80 120 80 120)) = Some (50, 100)
   \<and> camWidth (create 80 120 80 120) - 50 < 50
   \<and> camHeight (create 80 120 80 120) - 50 < 100"
  by (simp add: create_cam moveToPosition_def showDestinationMarker_def Clamp_def Let_def)

text \<open>
  C9. A click on a station orders a movement to the station's position plus (0, 80):
  the stored target is that point after the clamping every movement order applies, so
  the point itself when it is walkable; and the station becomes the current station.
\<close>

theorem moveToStation_target:
  "targetPosition (moveToStation st s) =
     Some (Clamp (fst (position st)) 50 (camWidth s - 50),
           Clamp (snd (position st) + 80) 100 (camHeight s - 50))
   \<and> targetPosition (moveToStation st s) =
       targetPosition (moveToPosition (fst (position st)) (snd (position st) + 80) s)
   \<and> currentStation (moveToStation st s) = Some (name st)
   \<and> isMoving (moveToStation st s)
   \<and> (50 \<le> fst (position st) \<and> fst (position st) \<le> camWidth s - 50
        \<and> 100 \<le> snd (position st) + 80 \<and> snd (position st) + 80 \<le> camHeight s - 50
      \<longrightarrow> targetPosition (moveToStation st s) = Some (fst (position st), snd (position st) + 80))"
  by (simp add: moveToStation_def moveToPosition_def showDestinationMarker_def Clamp_def Let_def)

theorem moveToStation_target_witness:
  "targetPosition (moveToStation (stations (create 800 600 800 600) ! 3) (create 800 600 800 600))
     = Some (624, 500)
   \<and> currentStation (moveToStation (stations (create 800 600 800 600) ! 3) (create 800 600 800 600))
     = Some Mesa"
  using moveToStation_target [of "stations (create 800 600 800 600) ! 3" "create 800 600 800 600"]
  by (simp add: create_800_600 Clamp_def)

subsection \<open>The arrival frame\<close>

text \<open>
  C3, amended. On a frame where the scene is moving and the distance to the stored
  target is below 5, the sprite is put exactly on the target and the moving flag is
  cleared; when a current station is set, it is handed to \<^verbatim>\<open>onReachedStation\<close> once and
  reset. The stored target is kept, not cleared, and the facing is untouched.
\<close>

theorem arrival_tick:
  assumes "isMoving s" and "targetPosition s = Some (tx, ty)"
    and "Distance_Between (fst (helloKitty s)) (snd (helloKitty s)) tx ty < 5"
  shows "helloKitty (update time delta s) = (tx, ty)
       \<and> isMoving (update time delta s) = False
       \<and> reached (update time delta s) =
           reached s @ (case currentStation s of None \<Rightarrow> [] | Some st \<Rightarrow> [st])
       \<and> currentStation (update time delta s) = None
       \<and> targetPosition (update time delta s) = Some (tx, ty)
       \<and> flipX (update time delta s) = flipX s"
  using assms
  by (auto simp: update_def moveHelloKittyToTarget_def Let_def onReachedStation_def
      split: option.splits)

text \<open>
  On an 800 by 250 canvas the point in front of the counter, (400, 125), is where the
  sprite stands after creation: the first frame after a click on the counter arrives.
\<close>

lemma counter_click:
  "moveToStation (stations (create 800 250 800 250) ! 1) (create 800 250 800 250) =
     \<lparr>helloKitty = (400, 125), flipX = False, shadow = Some (400, 165),
      stations =
        [\<lparr>name = Armario, position = (200, 45)\<rparr>, \<lparr>name = Bancada, position = (400, 45)\<rparr>,
         \<lparr>name = Forno, position = (600, 45)\<rparr>, \<lparr>name = Mesa, position = (624, 175)\<rparr>],
      lastWidth = 800, lastHeight = 250, isMoving = True, targetPosition = Some (400, 125),
      currentStation = Some Bancada, camWidth = 800, camHeight = 250,
      markers = [(400, 125)], reached = []\<rparr>"
  by (simp add: create_def layout_def updateShadow_def Let_def order_defs
        Armario_def Bancada_def Forno_def Mesa_def)

theorem arrival_tick_witness:
  "isMoving (moveToStation (stations (create 800 250 800 250) ! 1) (create 800 250 800 250))
   \<and> targetPosition (moveToStation (stations (create 800 250 800 250) ! 1) (create 800 250 800 250))
       = Some (400, 125)
   \<and> reached (update 0 16
        (moveToStation (stations (create 800 250 800 250) ! 1) (create 800 250 800 250)))
       = [Bancada]
   \<and> isMoving (update 0 16
        (moveToStation (stations (create 800 250 800 250) ! 1) (create 800 250 800 250)))
       = False"
proof -
  let ?s = "moveToStation (stations (create 800 250 800 250) ! 1) (create 800 250 800 250)"
  have h1: "isMoving ?s" and h2: "targetPosition ?s = Some (400, 125)"
    unfolding counter_click by simp_all
  have h3: "Distance_Between (fst (helloKitty ?s)) (snd (helloKitty ?s)) 400 125 < 5"
    unfolding counter_click by (simp add: Distance_lt_5)
  have "currentStation ?s = Some Bancada" and "reached ?s = []"
    unfolding counter_click by simp_all
  then show ?thesis
    using h1 h2 arrival_tick [OF h1 h2 h3, of 0 16] by (simp del: One_nat_def)
qed

text \<open>
  C3 as stated fails: after the arrival frame of a free movement to (402, 300), two
  pixels from the sprite, the stored target is still (402, 300).
\<close>

theorem arrival_keeps_target:
  "distanceToTarget (moveToPosition 402 300 (create 800 600 800 600)) < 5
   \<and> isMoving (moveToPosition 402 300 (create 800 600 800 600))
   \<and> isMoving (update 0 16 (moveToPosition 402 300 (create 800 600 800 600))) = False
   \<and> targetPosition (update 0 16 (moveToPosition 402 300 (create 800 600 800 600)))
       = Some (402, 300)"
  by (simp add: create_800_600 order_defs tick_defs distanceToTarget_def Let_def)

subsection \<open>The shadow\<close>

lemma moving_shadow:
  assumes "shadow s \<noteq> None" and "targetPosition s \<noteq> None"
  shows "shadowAttached (moveHelloKittyToTarget delta s)"
  using assms
  by (auto simp: moveHelloKittyToTarget_def Let_def shadowAttached_def updateShadow_shadow
        onReachedStation_def split: option.splits)

lemma rescale_shadow:
  assumes "shadow s \<noteq> None" and "rescale w h s = Some s'"
  shows "shadowAttached s'"
  using assms
  by (auto simp: rescale_def Let_def shadowAttached_def updateShadow_shadow
      split: option.splits prod.splits)

lemma layout_shadow:
  assumes "shadowAttached s"
  shows "shadowAttached (layout w h s)"
  using assms
  by (auto simp: layout_def Let_def shadowAttached_def updateShadow_shadow)

lemma layout_centre_shadow:
  assumes "shadow s \<noteq> None" and "\<not> isMoving s" and "targetPosition s = None"
  shows "shadowAttached (layout w h s)"
  using assms
  by (auto simp: layout_def Let_def shadowAttached_def updateShadow_shadow)

text \<open>
  C10. In a scene whose sprite has its shadow, every frame that runs the movement (a
  step towards the target or the arrival snap) and every resize that yields a scene
  leave the shadow at the sprite's position plus (0, 40).
\<close>

theorem shadow_follows:
  assumes "shadow s \<noteq> None"
  shows "(isMoving s \<and> targetPosition s \<noteq> None \<longrightarrow> shadowAttached (update time delta s))
       \<and> (\<forall>s'. handleResize width height s = Some s' \<longrightarrow> shadowAttached s')"
proof (intro conjI impI allI)
  assume "isMoving s \<and> targetPosition s \<noteq> None"
  then show "shadowAttached (update time delta s)"
    using assms by (simp add: update_def moving_shadow)
next
  fix s' assume "handleResize width height s = Some s'"
  then consider s1 where "rescale width height s = Some s1"
      and "s' = (layout width height s1)\<lparr>lastWidth := width, lastHeight := height\<rparr>"
    | "\<not> isMoving s" and "targetPosition s = None"
      and "s' = (layout width height s)\<lparr>lastWidth := width, lastHeight := height\<rparr>"
    by (auto simp: handleResize_def split: option.splits if_splits)
  then show "shadowAttached s'"
  proof cases
    case 1
    have "shadowAttached (layout width height s1)"
      using rescale_shadow [OF assms 1(1)] by (rule layout_shadow)
    then show ?thesis by (simp add: 1(2) shadowAttached_def)
  next
    case 2
    have "shadowAttached (layout width height s)"
      using assms 2(1,2) by (rule layout_centre_shadow)
    then show ?thesis by (simp add: 2(3) shadowAttached_def)
  qed
qed

theorem shadow_follows_witness:
  "shadow (moveToPosition 420 300 (create 800 600 800 600)) = Some (400, 340)
   \<and> shadowAttached (update 0 50 (moveToPosition 420 300 (create 800 600 800 600)))
   \<and> helloKitty (update 0 50 (moveToPosition 420 300 (create 800 600 800 600))) = (410, 300)
   \<and> (\<exists>s'. handleResize 1600 1200 (moveToPosition 420 300 (create 800 600 800 600)) = Some s'
          \<and> helloKitty s' = (800, 600) \<and> shadowAttached s')"
proof -
  let ?s = "moveToPosition 420 300 (create 800 600 800 600)"
  have h: "shadow ?s \<noteq> None" by (simp add: create_800_600 order_defs)
  have mv: "isMoving ?s \<and> targetPosition ?s \<noteq> None" by (simp add: create_800_600 order_defs)
  have r: "\<exists>s'. handleResize 1600 1200 ?s = Some s' \<and> helloKitty s' = (800, 600)"
    by (simp add: create_800_600 order_defs resize_defs Let_def)
  have k: "helloKitty (update 0 50 ?s) = (410, 300)"
    by (simp add: create_800_600 order_defs tick_defs Let_def)
  have sh: "shadow ?s = Some (400, 340)" by (simp add: create_800_600 order_defs)
  show ?thesis
    using shadow_follows [OF h, of 0 50 1600 1200] mv r k sh by auto
qed

subsection \<open>A step towards the target\<close>

lemma sqrt_one_plus_quot:
  fixes x y :: real
  assumes "x \<noteq> 0"
  shows "sqrt (1 + (y / x)\<^sup>2) = sqrt (x\<^sup>2 + y\<^sup>2) / \<bar>x\<bar>"
proof -
  have "1 + (y / x)\<^sup>2 = (x\<^sup>2 + y\<^sup>2) / x\<^sup>2"
    using assms by (simp add: power_divide add_divide_distrib)
  then show ?thesis by (simp add: real_sqrt_divide)
qed

text \<open>The angle \<open>atan2 y x\<close> points along \<open>(x, y)\<close>.\<close>

lemma cos_atan2:
  assumes "x \<noteq> 0 \<or> y \<noteq> 0"
  shows "cos (atan2 y x) = x / sqrt (x\<^sup>2 + y\<^sup>2)"
proof -
  consider "0 < x" | "x < 0" | "x = 0" by linarith
  then show ?thesis
  proof cases
    case 1
    then show ?thesis by (simp add: atan2_def cos_arctan sqrt_one_plus_quot)
  next
    case 2
    then show ?thesis by (simp add: atan2_def cos_arctan sqrt_one_plus_quot)
  next
    case 3
    then show ?thesis using assms by (simp add: atan2_def)
  qed
qed

lemma sin_atan2:
  assumes "x \<noteq> 0 \<or> y \<noteq> 0"
  shows "sin (atan2 y x) = y / sqrt (x\<^sup>2 + y\<^sup>2)"
proof -
  consider "0 < x" | "x < 0" | "x = 0" by linarith
  then show ?thesis
  proof cases
    case 1
    then show ?thesis by (simp add: atan2_def sin_arctan sqrt_one_plus_quot)
  next
    case 2
    then show ?thesis by (simp add: atan2_def sin_arctan sqrt_one_plus_quot)
  next
    case 3
    then show ?thesis using assms by (auto simp: atan2_def)
  qed
qed

text \<open>
  Moving by \<open>m\<close> along the angle to the target turns the distance \<open>d\<close> into \<open>|d - m|\<close>:
  a step longer than the distance passes the target.
\<close>

lemma step_distance:
  fixes kx ky tx ty m :: real
  assumes d: "0 < Distance_Between kx ky tx ty"
  shows "Distance_Between (kx + cos (Angle_Between kx ky tx ty) * m)
           (ky + sin (Angle_Between kx ky tx ty) * m) tx ty
         = \<bar>Distance_Between kx ky tx ty - m\<bar>"
proof -
  define dx where "dx = tx - kx"
  define dy where "dy = ty - ky"
  define d where "d = sqrt (dx\<^sup>2 + dy\<^sup>2)"
  have dD: "Distance_Between kx ky tx ty = d"
    by (simp add: Distance_Between_def Let_def d_def dx_def dy_def power2_eq_square algebra_simps)
  have dpos: "0 < d" using d dD by simp
  have nz: "dx \<noteq> 0 \<or> dy \<noteq> 0"
  proof (rule ccontr)
    assume "\<not> ?thesis" then have "d = 0" by (simp add: d_def)
    with dpos show False by simp
  qed
  have c: "cos (Angle_Between kx ky tx ty) = dx / d"
    unfolding Angle_Between_def d_def dx_def [symmetric] dy_def [symmetric]
    using nz by (rule cos_atan2)
  have s: "sin (Angle_Between kx ky tx ty) = dy / d"
    unfolding Angle_Between_def d_def dx_def [symmetric] dy_def [symmetric]
    using nz by (rule sin_atan2)
  have ex: "kx + dx / d * m - tx = dx * (m / d - 1)"
    by (simp add: dx_def algebra_simps)
  have ey: "ky + dy / d * m - ty = dy * (m / d - 1)"
    by (simp add: dy_def algebra_simps)
  have "Distance_Between (kx + dx / d * m) (ky + dy / d * m) tx ty
        = sqrt ((dx * (m / d - 1))\<^sup>2 + (dy * (m / d - 1))\<^sup>2)"
    unfolding Distance_Between_def Let_def ex ey power2_eq_square ..
  also have "(dx * (m / d - 1))\<^sup>2 + (dy * (m / d - 1))\<^sup>2 = (dx\<^sup>2 + dy\<^sup>2) * (m / d - 1)\<^sup>2"
    by (simp only: power_mult_distrib distrib_right)
  also have "sqrt \<dots> = d * \<bar>m / d - 1\<bar>"
    by (simp add: real_sqrt_mult d_def)
  also have "\<dots> = \<bar>d * (m / d - 1)\<bar>"
    using dpos by (simp add: abs_mult)
  also have "d * (m / d - 1) = m - d"
    using dpos by (simp add: algebra_simps)
  also have "\<bar>m - d\<bar> = \<bar>d - m\<bar>" by simp
  finally show ?thesis by (simp add: c s dD)
qed

text \<open>A frame at distance 5 or more: the scene keeps moving to the same target.\<close>

lemma moving_tick:
  assumes "isMoving s" and "targetPosition s = Some (tx, ty)" and "5 \<le> distanceToTarget s"
  shows "isMoving (update time delta s)"
    and "targetPosition (update time delta s) = Some (tx, ty)"
    and "distanceToTarget (update time delta s)
          = \<bar>distanceToTarget s - moveSpeed * delta / 1000\<bar>"
    and "reached (update time delta s) = reached s"
    and "currentStation (update time delta s) = currentStation s"
proof -
  have d: "5 \<le> Distance_Between (fst (helloKitty s)) (snd (helloKitty s)) tx ty"
    using assms by (simp add: distanceToTarget_def)
  then have pos: "0 < Distance_Between (fst (helloKitty s)) (snd (helloKitty s)) tx ty"
    by simp
  show "isMoving (update time delta s)"
    using assms d by (simp add: update_def moveHelloKittyToTarget_def Let_def)
  show "targetPosition (update time delta s) = Some (tx, ty)"
    using assms d by (simp add: update_def moveHelloKittyToTarget_def Let_def)
  show "reached (update time delta s) = reached s"
    using assms d by (simp add: update_def moveHelloKittyToTarget_def Let_def)
  show "currentStation (update time delta s) = currentStation s"
    using assms d by (simp add: update_def moveHelloKittyToTarget_def Let_def)
  show "distanceToTarget (update time delta s)
          = \<bar>distanceToTarget s - moveSpeed * delta / 1000\<bar>"
    using assms d step_distance [OF pos, of "moveSpeed * delta / 1000"]
    by (simp add: update_def moveHelloKittyToTarget_def Let_def distanceToTarget_def)
qed

lemma updates_snoc: "updates (ds @ [delta]) s = update 0 delta (updates ds s)"
  by (induction ds arbitrary: s) simp_all

lemma updates_Suc:
  "updates (map ds [0..<Suc n]) s = update 0 (ds n) (updates (map ds [0..<n]) s)"
  by (simp add: updates_snoc)

lemma run_far:
  assumes mv: "isMoving s" and tg: "targetPosition s = Some (tx, ty)"
    and far: "\<forall>k<n. 5 \<le> distanceToTarget (updates (map ds [0..<k]) s)"
  shows "isMoving (updates (map ds [0..<n]) s)
       \<and> targetPosition (updates (map ds [0..<n]) s) = Some (tx, ty)
       \<and> reached (updates (map ds [0..<n]) s) = reached s
       \<and> currentStation (updates (map ds [0..<n]) s) = currentStation s"
  using far
proof (induction n)
  case 0
  then show ?case using mv tg by simp
next
  case (Suc n)
  then have ih: "isMoving (updates (map ds [0..<n]) s)"
      "targetPosition (updates (map ds [0..<n]) s) = Some (tx, ty)"
      "reached (updates (map ds [0..<n]) s) = reached s"
      "currentStation (updates (map ds [0..<n]) s) = currentStation s"
    by simp_all
  have d: "5 \<le> distanceToTarget (updates (map ds [0..<n]) s)" using Suc.prems by simp
  show ?case
    unfolding updates_Suc
    using moving_tick(1,2,4,5) [OF ih(1) ih(2) d] ih(3,4) by simp
qed

subsection \<open>Arrival after finitely many frames\<close>

lemma far_step:
  assumes mv: "isMoving s" and tg: "targetPosition s = Some (tx, ty)"
    and far: "\<forall>j\<le>k. 5 \<le> distanceToTarget (updates (map ds [0..<j]) s)"
  shows "distanceToTarget (updates (map ds [0..<Suc k]) s)
          = \<bar>distanceToTarget (updates (map ds [0..<k]) s) - ds k / 5\<bar>"
proof -
  have before: "\<forall>j<k. 5 \<le> distanceToTarget (updates (map ds [0..<j]) s)"
    using far by simp
  have dk: "5 \<le> distanceToTarget (updates (map ds [0..<k]) s)"
    using far by simp
  from run_far [OF mv tg before]
  have "isMoving (updates (map ds [0..<k]) s)"
    and "targetPosition (updates (map ds [0..<k]) s) = Some (tx, ty)" by simp_all
  from moving_tick(3) [OF this dk, of 0 "ds k"]
  show ?thesis unfolding updates_Suc by (simp add: moveSpeed_def)
qed

text \<open>
  With deltas bounded below by \<open>m > 0\<close> and below 50, some frame count brings the
  distance below 5: each frame at distance 5 or more either takes \<open>m / 5\<close> off the
  distance or passes the target by less than 5.
\<close>

lemma first_close:
  assumes mv: "isMoving s" and tg: "targetPosition s = Some (tx, ty)"
    and m: "0 < m" and ds: "\<forall>i. m \<le> ds i \<and> ds i < 50"
  shows "\<exists>n. distanceToTarget (updates (map ds [0..<n]) s) < 5
           \<and> (\<forall>k<n. 5 \<le> distanceToTarget (updates (map ds [0..<k]) s))"
proof -
  define D where "D k = distanceToTarget (updates (map ds [0..<k]) s)" for k
  have ex: "\<exists>n. D n < 5"
  proof (rule ccontr)
    assume "\<not> ?thesis"
    then have all: "\<And>n. 5 \<le> D n" by (simp add: not_less)
    have dec: "D (Suc k) \<le> D k - m / 5" for k
    proof -
      have "\<forall>j\<le>k. 5 \<le> distanceToTarget (updates (map ds [0..<j]) s)"
        using all by (simp add: D_def)
      from far_step [OF mv tg this]
      have e: "D (Suc k) = \<bar>D k - ds k / 5\<bar>" by (simp add: D_def)
      have "5 \<le> D (Suc k)" "5 \<le> D k" using all by simp_all
      moreover have "m \<le> ds k" "ds k < 50" using ds by simp_all
      ultimately show ?thesis using e by linarith
    qed
    have bound: "D n \<le> D 0 - real n * (m / 5)" for n
    proof (induction n)
      case 0 show ?case by simp
    next
      case (Suc n)
      have "real (Suc n) * (m / 5) = real n * (m / 5) + m / 5"
        by (simp add: algebra_simps)
      with Suc dec [of n] show ?case by linarith
    qed
    have "0 < m / 5" using m by simp
    then obtain n where n: "D 0 < real n * (m / 5)"
      using reals_Archimedean3 by blast
    with bound [of n] all [of n] show False by linarith
  qed
  define n where "n = (LEAST n. D n < 5)"
  have n5: "D n < 5" unfolding n_def using ex by (rule LeastI_ex)
  have before: "5 \<le> D k" if "k < n" for k
    using not_less_Least [of k "\<lambda>n. D n < 5"] that by (simp add: n_def not_less)
  show ?thesis
    using n5 before unfolding D_def by blast
qed

text \<open>
  C8, amended. The scene is moving to a stored target and frame \<open>i\<close> has delta \<open>ds i\<close>,
  with every delta at least some \<open>m > 0\<close> and below 50 milliseconds, so that a step is
  shorter than 10 pixels, twice the arrival radius. Then there is a frame count \<open>n\<close>
  after which the distance to the target is below 5, and on each of these \<open>n\<close> frames
  the distance was at least 5 before the frame and strictly smaller after it.
\<close>

theorem arrival_convergence:
  assumes mv: "isMoving s" and tg: "targetPosition s = Some (tx, ty)"
    and m: "0 < m" and ds: "\<forall>i. m \<le> ds i \<and> ds i < 50"
  shows "\<exists>n. distanceToTarget (updates (map ds [0..<n]) s) < 5
           \<and> (\<forall>k<n. 5 \<le> distanceToTarget (updates (map ds [0..<k]) s)
                   \<and> distanceToTarget (updates (map ds [0..<Suc k]) s)
                       < distanceToTarget (updates (map ds [0..<k]) s))"
proof -
  from first_close [OF mv tg m ds]
  obtain n where n5: "distanceToTarget (updates (map ds [0..<n]) s) < 5"
    and before: "\<forall>k<n. 5 \<le> distanceToTarget (updates (map ds [0..<k]) s)"
    by blast
  have "distanceToTarget (updates (map ds [0..<Suc k]) s)
          < distanceToTarget (updates (map ds [0..<k]) s)" if "k < n" for k
  proof -
    have far: "\<forall>j\<le>k. 5 \<le> distanceToTarget (updates (map ds [0..<j]) s)"
      using before that by simp
    have "5 \<le> distanceToTarget (updates (map ds [0..<k]) s)"
      using before that by simp
    moreover have "m \<le> ds k" "ds k < 50" using ds by simp_all
    ultimately show ?thesis using far_step [OF mv tg far] m by linarith
  qed
  with n5 before show ?thesis by blast
qed

theorem arrival_convergence_witness:
  "isMoving (moveToPosition 420 300 (create 800 600 800 600))
   \<and> targetPosition (moveToPosition 420 300 (create 800 600 800 600)) = Some (420, 300)
   \<and> (\<exists>n. distanceToTarget
             (updates (map (\<lambda>i. 16) [0..<n]) (moveToPosition 420 300 (create 800 600 800 600)))
           < 5)"
proof -
  let ?s = "moveToPosition 420 300 (create 800 600 800 600)"
  have h1: "isMoving ?s" and h2: "targetPosition ?s = Some (420, 300)"
    by (simp_all add: create_800_600 order_defs)
  have h3: "(0::real) < 16" by simp
  have h4: "\<forall>i::nat. (16::real) \<le> (\<lambda>i. 16) i \<and> (\<lambda>i. 16) i < (50::real)" by simp
  show ?thesis
    using h1 h2 arrival_convergence [OF h1 h2 h3 h4] by blast
qed

text \<open>
  C8 as stated fails: with the sprite at (400, 300), the target (410, 300) and a frame
  of 100 milliseconds, the step is 20 pixels; the sprite lands on (420, 300), as far
  from the target as before.
\<close>

theorem overshoot_no_decrease:
  "isMoving (moveToPosition 410 300 (create 800 600 800 600))
   \<and> distanceToTarget (moveToPosition 410 300 (create 800 600 800 600)) = 10
   \<and> helloKitty (update 0 100 (moveToPosition 410 300 (create 800 600 800 600))) = (420, 300)
   \<and> distanceToTarget (update 0 100 (moveToPosition 410 300 (create 800 600 800 600))) = 10"
  by (simp add: create_800_600 order_defs tick_defs distanceToTarget_def Let_def
        Distance_Between_def sqrt_100)

subsection \<open>Station arrivals\<close>

text \<open>
  A whole movement, from any moving scene with deltas as above: the log of station
  arrivals stays as it is up to some frame, and from the next frame on the scene is
  idle on the target and the log has grown by the current station of the scene the
  movement started from, if there was one, and by nothing otherwise.
\<close>

lemma movement_completes:
  assumes mv: "isMoving s" and tg: "targetPosition s = Some (tx, ty)"
    and m: "0 < m" and ds: "\<forall>i. m \<le> ds i \<and> ds i < 50"
  shows "\<exists>n. (\<forall>k\<le>n. reached (updates (map ds [0..<k]) s) = reached s)
           \<and> (\<forall>k>n. reached (updates (map ds [0..<k]) s)
                        = reached s @ (case currentStation s of None \<Rightarrow> [] | Some st \<Rightarrow> [st])
                    \<and> isMoving (updates (map ds [0..<k]) s) = False
                    \<and> helloKitty (updates (map ds [0..<k]) s) = (tx, ty))"
proof -
  from first_close [OF mv tg m ds]
  obtain n where n5: "distanceToTarget (updates (map ds [0..<n]) s) < 5"
    and before: "\<forall>k<n. 5 \<le> distanceToTarget (updates (map ds [0..<k]) s)"
    by blast
  let ?run = "\<lambda>k. updates (map ds [0..<k]) s"
  have early: "reached (?run k) = reached s" if "k \<le> n" for k
  proof -
    have "\<forall>j<k. 5 \<le> distanceToTarget (?run j)" using before that by simp
    from run_far [OF mv tg this] show ?thesis by simp
  qed
  from run_far [OF mv tg before]
  have at_n: "isMoving (?run n)" "targetPosition (?run n) = Some (tx, ty)"
    "reached (?run n) = reached s" "currentStation (?run n) = currentStation s"
    by simp_all
  have close: "Distance_Between (fst (helloKitty (?run n))) (snd (helloKitty (?run n))) tx ty < 5"
    using n5 at_n(2) by (simp add: distanceToTarget_def)
  have arrived: "reached (?run (Suc n))
                   = reached s @ (case currentStation s of None \<Rightarrow> [] | Some st \<Rightarrow> [st])
                 \<and> isMoving (?run (Suc n)) = False \<and> helloKitty (?run (Suc n)) = (tx, ty)"
    unfolding updates_Suc using at_n close
    by (auto simp: update_def moveHelloKittyToTarget_def Let_def onReachedStation_def
          split: option.splits)
  have later: "?run (Suc n + j) = ?run (Suc n)" for j
  proof (induction j)
    case 0 show ?case by simp
  next
    case (Suc j)
    have "?run (Suc (Suc n + j)) = update 0 (ds (Suc n + j)) (?run (Suc n + j))"
      by (rule updates_Suc)
    also have "\<dots> = ?run (Suc n)"
      using arrived by (simp only: Suc.IH) (simp add: update_idle)
    finally show ?case by simp
  qed
  have "reached (?run k) = reached s @ (case currentStation s of None \<Rightarrow> [] | Some st \<Rightarrow> [st])
        \<and> isMoving (?run k) = False \<and> helloKitty (?run k) = (tx, ty)" if "n < k" for k
  proof -
    from that obtain j where "k = Suc n + j" using less_iff_Suc_add by auto
    then show ?thesis using later [of j] arrived by simp
  qed
  with early show ?thesis by blast
qed

text \<open>
  C1. The code at a failing input. On the 800 by 600 scene the table is clicked (the
  sprite is ordered to (624, 500) and the table becomes the current station), then the
  background is clicked at (402, 300), two pixels from the sprite. \<^verbatim>\<open>moveToPosition\<close> does
  not reset the current station, so the next frame, the arrival of the free movement,
  hands the table to \<^verbatim>\<open>onReachedStation\<close>, far from the table.
\<close>

theorem stale_station_fires:
  "currentStation (moveToPosition 402 300
      (moveToStation (stations (create 800 600 800 600) ! 3) (create 800 600 800 600))) = Some Mesa
   \<and> reached (update 0 16 (moveToPosition 402 300
      (moveToStation (stations (create 800 600 800 600) ! 3) (create 800 600 800 600)))) = [Mesa]
   \<and> helloKitty (update 0 16 (moveToPosition 402 300
      (moveToStation (stations (create 800 600 800 600) ! 3) (create 800 600 800 600)))) = (402, 300)"
  by (simp add: create_800_600 order_defs tick_defs Let_def)

text \<open>
  C2. The code at a failing input. On the 800 by 600 scene the oven is clicked, then,
  before any frame, the background at (420, 300). Three frames of 50 milliseconds move
  the sprite towards the new target only, (410, 300), (420, 300), and on the third, the
  arrival, the superseded order's station, the oven, is handed to \<^verbatim>\<open>onReachedStation\<close>.
\<close>

theorem superseded_station_fires:
  "map helloKitty
     [updates [50] (moveToPosition 420 300
        (moveToStation (stations (create 800 600 800 600) ! 2) (create 800 600 800 600))),
      updates [50, 50] (moveToPosition 420 300
        (moveToStation (stations (create 800 600 800 600) ! 2) (create 800 600 800 600))),
      updates [50, 50, 50] (moveToPosition 420 300
        (moveToStation (stations (create 800 600 800 600) ! 2) (create 800 600 800 600)))]
     = [(410, 300), (420, 300), (420, 300)]
   \<and> map reached
     [updates [50, 50] (moveToPosition 420 300
        (moveToStation (stations (create 800 600 800 600) ! 2) (create 800 600 800 600))),
      updates [50, 50, 50] (moveToPosition 420 300
        (moveToStation (stations (create 800 600 800 600) ! 2) (create 800 600 800 600)))]
     = [[], [Forno]]"
  by (simp add: create_800_600 order_defs tick_defs Let_def)

subsection \<open>Resize\<close>

lemma rescale_keeps:
  assumes "rescale width height s = Some s1"
  shows "isMoving s1 = isMoving s"
    and "(targetPosition s1 = None) = (targetPosition s = None)"
    and "(shadow s1 = None) = (shadow s = None)"
  using assms
  by (auto simp: rescale_def Let_def updateShadow_shadow split: option.splits prod.splits)

lemma layout_keeps:
  "isMoving (layout width height s) = isMoving s"
  "targetPosition (layout width height s) = targetPosition s"
  "(shadow (layout width height s) = None) = (shadow s = None)"
  "helloKitty (layout width height s) =
     (if \<not> isMoving s \<and> targetPosition s = None then (width / 2, height * 0.5)
      else helloKitty s)"
  by (auto simp: layout_def Let_def updateShadow_shadow split: option.splits)

lemma inv_create: "sceneInv (create camW camH scaleW scaleH)"
  by (simp add: sceneInv_def idleCentred_def create_def layout_def Let_def updateShadow_shadow)

lemma inv_camera: "sceneInv s \<Longrightarrow> sceneInv (s\<lparr>camWidth := w, camHeight := h\<rparr>)"
  by (simp add: sceneInv_def idleCentred_def)

lemma inv_click: "sceneInv s \<Longrightarrow> sceneInv (moveToPosition x y s)"
  by (simp add: sceneInv_def idleCentred_def moveToPosition_def showDestinationMarker_def Let_def)

lemma inv_station: "sceneInv s \<Longrightarrow> sceneInv (moveToStation st s)"
  by (simp add: sceneInv_def idleCentred_def moveToStation_def moveToPosition_def
        showDestinationMarker_def Let_def)

lemma inv_update: "sceneInv s \<Longrightarrow> sceneInv (update time delta s)"
  by (auto simp: sceneInv_def idleCentred_def update_def moveHelloKittyToTarget_def Let_def
        onReachedStation_def updateShadow_shadow split: option.splits)

lemma inv_resize:
  assumes "sceneInv s" and "handleResize width height s = Some s'"
  shows "sceneInv s'"
proof -
  from assms(2) consider s1 where "rescale width height s = Some s1"
      and "s' = (layout width height s1)\<lparr>lastWidth := width, lastHeight := height\<rparr>"
    | "\<not> isMoving s" and "targetPosition s = None"
      and "s' = (layout width height s)\<lparr>lastWidth := width, lastHeight := height\<rparr>"
    by (auto simp: handleResize_def split: option.splits if_splits)
  then show ?thesis
  proof cases
    case 1
    show ?thesis
      using assms(1) rescale_keeps [OF 1(1)]
      by (auto simp: 1(2) sceneInv_def idleCentred_def layout_keeps)
  next
    case 2
    show ?thesis
      using assms(1) 2(1,2)
      by (auto simp: 2(3) sceneInv_def idleCentred_def layout_keeps)
  qed
qed

text \<open>
  Every reachable scene has its shadow, has a stored target whenever it is moving, and
  is centred on the cached size as long as no movement was ever ordered.
\<close>

lemma reachable_inv: "reachable s \<Longrightarrow> sceneInv s"
  by (induction rule: reachable.induct)
     (simp_all add: inv_create inv_camera inv_click inv_station inv_update inv_resize)

text \<open>
  C6. With a non-zero cached size, the rescale of a resize to \<open>width\<close> by \<open>height\<close> yields
  a scene; in it the sprite's coordinates are the old ones times \<open>width / lastWidth\<close> and
  \<open>height / lastHeight\<close>, and so are those of the stored target, if there is one. The
  layout that follows keeps the target, and keeps the sprite's position too in every
  reachable scene (in every scene that is moving, has a stored target, or is centred).
  A sprite at (500, 350) with cached size 1000 by 700 is at (1000, 700) after the resize
  to 2000 by 1400.
\<close>

theorem rescale_proportional:
  assumes "lastWidth s \<noteq> 0" and "lastHeight s \<noteq> 0"
  shows "\<exists>s1 s2. rescale width height s = Some s1 \<and> handleResize width height s = Some s2
     \<and> helloKitty s1 = (fst (helloKitty s) * (width / lastWidth s),
                        snd (helloKitty s) * (height / lastHeight s))
     \<and> targetPosition s1 =
         map_option (\<lambda>(tx, ty). (tx * (width / lastWidth s), ty * (height / lastHeight s)))
           (targetPosition s)
     \<and> targetPosition s2 = targetPosition s1
     \<and> (idleCentred s \<longrightarrow> helloKitty s2 = helloKitty s1)
     \<and> (reachable s \<longrightarrow> helloKitty s2 = helloKitty s1)
     \<and> (lastWidth s = 1000 \<and> lastHeight s = 700 \<and> helloKitty s = (500, 350)
          \<and> width = 2000 \<and> height = 1400 \<longrightarrow> helloKitty s2 = (1000, 700))"
proof -
  have "reachable s \<longrightarrow> idleCentred s"
    using reachable_inv [of s] by (simp add: sceneInv_def)
  then show ?thesis
    using assms
    by (auto simp: rescale_def handleResize_def layout_def js_or_def js_div_def Let_def
          idleCentred_def split: option.splits prod.splits)
qed

lemma create_1000_700:
  "lastWidth (moveToPosition 900 350 (create 1000 700 1000 700)) = 1000"
  "lastHeight (moveToPosition 900 350 (create 1000 700 1000 700)) = 700"
  "helloKitty (moveToPosition 900 350 (create 1000 700 1000 700)) = (500, 350)"
  "targetPosition (moveToPosition 900 350 (create 1000 700 1000 700)) = Some (900, 350)"
  by (simp_all add: create_def layout_def updateShadow_def Let_def order_defs)

theorem rescale_proportional_witness:
  "lastWidth (moveToPosition 900 350 (create 1000 700 1000 700)) = 1000
   \<and> lastHeight (moveToPosition 900 350 (create 1000 700 1000 700)) = 700
   \<and> (\<exists>s2. handleResize 2000 1400 (moveToPosition 900 350 (create 1000 700 1000 700)) = Some s2
          \<and> helloKitty s2 = (1000, 700) \<and> targetPosition s2 = Some (1800, 700))"
proof -
  let ?s = "moveToPosition 900 350 (create 1000 700 1000 700)"
  have h1: "lastWidth ?s \<noteq> 0" and h2: "lastHeight ?s \<noteq> 0"
    by (simp_all add: create_1000_700)
  show ?thesis
    using h1 h2 rescale_proportional [OF h1 h2, of 2000 1400]
    by (clarsimp simp: create_1000_700)
qed

text \<open>
  With a zero cached size and a non-zero new size the rescale divides by the new size
  and multiplies by it again: nothing moves.
\<close>

lemma rescale_zero_old:
  assumes "lastWidth s = 0" and "lastHeight s = 0" and "width \<noteq> 0" and "height \<noteq> 0"
  shows "rescale width height s = Some (updateShadow s)"
  using assms
  by (cases "targetPosition s")
     (auto simp: rescale_def js_or_def js_div_def Let_def updateShadow_def split: option.splits)

text \<open>
  In a scene that never got a movement order the layout repairs the division by zero:
  the 800 by 600 scene resized to 0 by 0 twice is, after the second resize, what it was
  after the first.
\<close>

lemma resize_zero_idle:
  "handleResize 0 0 (create 800 600 800 600) \<noteq> None
   \<and> Option.bind (handleResize 0 0 (create 800 600 800 600)) (handleResize 0 0)
       = handleResize 0 0 (create 800 600 800 600)"
  by (simp add: create_800_600 resize_defs Let_def)

text \<open>
  C7. The code at a failing input. On the 800 by 600 scene the background is clicked at
  (420, 300), so a target is stored; the scene is resized to 0 by 0, which puts sprite
  and target on (0, 0) and caches the size 0 by 0; then it is resized to 0 by 0 again.
  The old size falls back on the new one, which is zero as well: the coordinates of
  sprite and target are divided by zero, and with a stored target the layout does not
  put the sprite back.
\<close>

theorem resize_zero_twice:
  "map_option (\<lambda>s. (helloKitty s, targetPosition s, isMoving s, lastWidth s, lastHeight s))
     (handleResize 0 0 (moveToPosition 420 300 (create 800 600 800 600)))
     = Some ((0, 0), Some (0, 0), True, 0, 0)
   \<and> Option.bind (handleResize 0 0 (moveToPosition 420 300 (create 800 600 800 600)))
       (rescale 0 0) = None
   \<and> Option.bind (handleResize 0 0 (moveToPosition 420 300 (create 800 600 800 600)))
       (handleResize 0 0) = None"
  by (simp add: create_800_600 order_defs resize_defs Let_def)

end
